theory Spec2Isabelle
  imports Complex_Main
begin

section \<open>Numbers and vectors\<close>

text \<open>
  The program computes with Python and NumPy double-precision numbers. They are
  modelled here as real numbers: every decimal literal of the source denotes the real it
  spells, and \<open>+\<close>, \<open>*\<close>, \<open>/\<close>, \<open>cos\<close>, \<open>sin\<close> and the square root are the exact
  operations. Rounding, infinities and NaN are therefore outside the model.

  A NumPy array of three numbers is a triple. The helpers below are the array operations
  the source uses: \<open>a += b\<close> on arrays, \<open>scalar * array\<close>, \<open>array * scalar\<close>,
  \<open>np.linalg.norm\<close>, \<open>np.zeros(3)\<close> and \<open>np.radians\<close>.
\<close>

type_synonym vec3 = "real \<times> real \<times> real"

definition zeros3 :: vec3 where
  "zeros3 = (0, 0, 0)"

fun array_add :: "vec3 \<Rightarrow> vec3 \<Rightarrow> vec3" where
  "array_add (a1, a2, a3) (b1, b2, b3) = (a1 + b1, a2 + b2, a3 + b3)"

fun scalar_times_array :: "real \<Rightarrow> vec3 \<Rightarrow> vec3" where
  "scalar_times_array s (a1, a2, a3) = (s * a1, s * a2, s * a3)"

fun array_times_scalar :: "vec3 \<Rightarrow> real \<Rightarrow> vec3" where
  "array_times_scalar (a1, a2, a3) s = (a1 * s, a2 * s, a3 * s)"

fun array_neg :: "vec3 \<Rightarrow> vec3" where
  "array_neg (a1, a2, a3) = (- a1, - a2, - a3)"

fun linalg_norm :: "vec3 \<Rightarrow> real" where
  "linalg_norm (a1, a2, a3) = sqrt (a1 * a1 + a2 * a2 + a3 * a3)"

definition radians :: "real \<Rightarrow> real" where
  "radians d = d * pi / 180"

section \<open>Instants\<close>

text \<open>
  A Python \<open>datetime\<close> is either naive (no \<open>tzinfo\<close>) or aware. Both carry a
  wall-clock reading, here in microseconds since the epoch; an aware one also carries the
  UTC offset of its \<open>tzinfo\<close>, in microseconds. The time zones the program builds
  (\<open>pytz\<close> zones applied with \<open>localize\<close>, and \<open>pytz.UTC\<close>) have a fixed offset per
  \<open>tzinfo\<close> object, so a zone is identified with its offset.

  \<open>datetime_sub\<close> is \<open>datetime.__sub__\<close> followed by \<open>timedelta.total_seconds\<close>:
  two naive values subtract their wall clocks, two aware values subtract as UTC instants,
  and mixing the two kinds raises \<open>TypeError\<close>.
\<close>

datatype datetime = Naive int | Aware int int

datatype error = TypeError

fun datetime_sub :: "datetime \<Rightarrow> datetime \<Rightarrow> error + int" where
  "datetime_sub (Naive a) (Naive b) = Inr (a - b)"
| "datetime_sub (Aware a oa) (Aware b ob) = Inr ((a - b) + ob - oa)"
| "datetime_sub (Naive a) (Aware b ob) = Inl TypeError"
| "datetime_sub (Aware a oa) (Naive b) = Inl TypeError"

definition total_seconds :: "int \<Rightarrow> real" where
  "total_seconds micros = real_of_int micros / 1000000"

text \<open>
  \<open>datetime.now(pytz.UTC)\<close> reads the system clock; the reading (microseconds since the
  epoch, UTC) is an explicit argument.
\<close>

definition datetime_now_utc :: "int \<Rightarrow> datetime" where
  "datetime_now_utc clock = Aware clock 0"

text \<open>
  \<open>astropy.time.Time(dt)\<close> wraps the datetime; none of the program's computations reads
  the wrapped value.
\<close>

datatype astropy_time = Time datetime

section \<open>The motion calculator (cosmic\_calculator.py)\<close>

definition EARTH_ROTATION_EQUATOR :: real where "EARTH_ROTATION_EQUATOR = 0.465"
definition EARTH_ORBITAL_VELOCITY :: real where "EARTH_ORBITAL_VELOCITY = 29.78"
definition SOLAR_SYSTEM_LSR :: real where "SOLAR_SYSTEM_LSR = 20.0"
definition SUN_GALACTIC_ORBIT :: real where "SUN_GALACTIC_ORBIT = 230.0"
definition GALACTIC_PLANE_OSCILLATION :: real where "GALACTIC_PLANE_OSCILLATION = 7.0"
definition MW_LOCAL_GROUP :: real where "MW_LOCAL_GROUP = 100.0"
definition LOCAL_GROUP_VIRGO :: real where "LOCAL_GROUP_VIRGO = 600.0"
definition GREAT_ATTRACTOR :: real where "GREAT_ATTRACTOR = 600.0"
definition CMB_DIPOLE_VELOCITY :: real where "CMB_DIPOLE_VELOCITY = 369.0"
definition CMB_DIPOLE_RA :: real where "CMB_DIPOLE_RA = 167.99"
definition CMB_DIPOLE_DEC :: real where "CMB_DIPOLE_DEC = - 6.98"

definition earth_rotation_velocity :: "real \<Rightarrow> real \<Rightarrow> astropy_time \<Rightarrow> vec3" where
  "earth_rotation_velocity latitude longitude time =
     (let v_mag = EARTH_ROTATION_EQUATOR * cos (radians latitude);
          v_east = v_mag
      in (- v_east * sin (radians longitude),
          v_east * cos (radians longitude),
          0.0))"

definition earth_orbital_velocity :: "astropy_time \<Rightarrow> vec3" where
  "earth_orbital_velocity time = (0, EARTH_ORBITAL_VELOCITY, 0)"

definition solar_system_velocity :: vec3 where
  "solar_system_velocity =
     (let apex_ra = 270.0; apex_dec = 30.0
      in scalar_times_array SOLAR_SYSTEM_LSR
           (cos (radians apex_dec) * cos (radians apex_ra),
            cos (radians apex_dec) * sin (radians apex_ra),
            sin (radians apex_dec)))"

definition galactic_rotation_velocity :: vec3 where
  "galactic_rotation_velocity = (0, SUN_GALACTIC_ORBIT, 0)"

definition galactic_plane_oscillation_velocity :: "astropy_time \<Rightarrow> vec3" where
  "galactic_plane_oscillation_velocity time = (0, 0, GALACTIC_PLANE_OSCILLATION)"

definition local_group_velocity :: vec3 where
  "local_group_velocity =
     (let m31_ra = 10.5; m31_dec = 41.27
      in scalar_times_array MW_LOCAL_GROUP
           (cos (radians m31_dec) * cos (radians m31_ra),
            cos (radians m31_dec) * sin (radians m31_ra),
            sin (radians m31_dec)))"

definition virgo_cluster_velocity :: vec3 where
  "virgo_cluster_velocity =
     (let virgo_ra = 186.75; virgo_dec = 12.72
      in scalar_times_array LOCAL_GROUP_VIRGO
           (cos (radians virgo_dec) * cos (radians virgo_ra),
            cos (radians virgo_dec) * sin (radians virgo_ra),
            sin (radians virgo_dec)))"

definition great_attractor_velocity :: vec3 where
  "great_attractor_velocity =
     (let ga_ra = 220.0; ga_dec = - 45.0
      in scalar_times_array GREAT_ATTRACTOR
           (cos (radians ga_dec) * cos (radians ga_ra),
            cos (radians ga_dec) * sin (radians ga_ra),
            sin (radians ga_dec)))"

definition cmb_rest_frame_velocity :: vec3 where
  "cmb_rest_frame_velocity =
     (let ra_rad = radians CMB_DIPOLE_RA; dec_rad = radians CMB_DIPOLE_DEC
      in scalar_times_array CMB_DIPOLE_VELOCITY
           (cos dec_rad * cos ra_rad,
            cos dec_rad * sin ra_rad,
            sin dec_rad))"

text \<open>
  \<open>calculate_total_velocity\<close> returns a dictionary. Its nine vector entries are kept as
  an association list in insertion order, the order in which \<open>velocities.values()\<close> is
  traversed by the summing loop; the two entries added afterwards, \<open>'total'\<close> (a vector)
  and \<open>'total_magnitude'\<close> (a number), are the fields \<open>total_vec\<close> and
  \<open>total_magnitude\<close>.
\<close>

record velocities =
  components :: "(string \<times> vec3) list"
  total_vec :: vec3
  total_magnitude :: real

definition calculate_total_velocity :: "real \<Rightarrow> real \<Rightarrow> astropy_time \<Rightarrow> velocities" where
  "calculate_total_velocity latitude longitude time =
     (let vs = [(''earth_rotation'', earth_rotation_velocity latitude longitude time),
                (''earth_orbit'', earth_orbital_velocity time),
                (''solar_system_lsr'', solar_system_velocity),
                (''galactic_rotation'', galactic_rotation_velocity),
                (''galactic_oscillation'', galactic_plane_oscillation_velocity time),
                (''local_group'', local_group_velocity),
                (''virgo_motion'', virgo_cluster_velocity),
                (''great_attractor'', great_attractor_velocity),
                (''cmb_frame'', cmb_rest_frame_velocity)];
          total = fold (\<lambda>v total. array_add total v) (map snd vs) zeros3
      in \<lparr>components = vs, total_vec = total, total_magnitude = linalg_norm total\<rparr>)"

definition calculate_position_change :: "velocities \<Rightarrow> real \<Rightarrow> vec3" where
  "calculate_position_change vels time_delta_seconds =
     (let total_velocity = total_vec vels;
          position_change = array_times_scalar total_velocity time_delta_seconds
      in position_change)"

section \<open>The space-time position (spacetime\_position.py)\<close>

text \<open>
  A location is the tuple \<open>(latitude, longitude, address_string)\<close> the constructor
  indexes by position. The fields of a \<open>SpaceTimePosition\<close> object are those the
  constructor assigns; the calculator object it also stores has no state.
\<close>

type_synonym location_tuple = "real \<times> real \<times> string"

record SpaceTimePosition =
  birth_datetime :: datetime
  birth_latitude :: real
  birth_longitude :: real
  birth_address :: string
  current_datetime :: datetime
  current_latitude :: real
  current_longitude :: real
  current_address :: string
  age_seconds :: real
  age_years :: real

text \<open>
  The constructor. \<open>clock\<close> is the reading \<open>datetime.now(pytz.UTC)\<close> would return.
  The subtraction of the two datetimes is the only statement that can raise.
\<close>

definition SpaceTimePosition_init ::
  "int \<Rightarrow> datetime \<Rightarrow> location_tuple \<Rightarrow> datetime option \<Rightarrow> location_tuple option
     \<Rightarrow> error + SpaceTimePosition" where
  "SpaceTimePosition_init clock birth_dt birth_location cur_dt cur_location =
     (let b_lat = fst birth_location;
          b_lon = fst (snd birth_location);
          b_addr = snd (snd birth_location);
          c_dt = (case cur_dt of None \<Rightarrow> datetime_now_utc clock | Some d \<Rightarrow> d);
          c_lat = (case cur_location of None \<Rightarrow> b_lat | Some l \<Rightarrow> fst l);
          c_lon = (case cur_location of None \<Rightarrow> b_lon | Some l \<Rightarrow> fst (snd l));
          c_addr = (case cur_location of None \<Rightarrow> b_addr | Some l \<Rightarrow> snd (snd l))
      in case datetime_sub c_dt birth_dt of
           Inl e \<Rightarrow> Inl e
         | Inr delta \<Rightarrow>
             (let secs = total_seconds delta
              in Inr \<lparr>birth_datetime = birth_dt,
                      birth_latitude = b_lat,
                      birth_longitude = b_lon,
                      birth_address = b_addr,
                      current_datetime = c_dt,
                      current_latitude = c_lat,
                      current_longitude = c_lon,
                      current_address = c_addr,
                      age_seconds = secs,
                      age_years = secs / (365.25 * 24 * 3600)\<rparr>))"

record location =
  latitude :: real
  longitude :: real
  address :: string

record position_data =
  time :: datetime
  location :: location
  velocities :: velocities
  astropy_time :: astropy_time

definition calculate_birth_position :: "SpaceTimePosition \<Rightarrow> position_data" where
  "calculate_birth_position self =
     (let birth_time = Time (birth_datetime self);
          vels = calculate_total_velocity (birth_latitude self) (birth_longitude self) birth_time
      in \<lparr>time = birth_datetime self,
          location = \<lparr>latitude = birth_latitude self,
                      longitude = birth_longitude self,
                      address = birth_address self\<rparr>,
          velocities = vels,
          astropy_time = birth_time\<rparr>)"

definition calculate_current_position :: "SpaceTimePosition \<Rightarrow> position_data" where
  "calculate_current_position self =
     (let current_time = Time (current_datetime self);
          vels = calculate_total_velocity (current_latitude self) (current_longitude self)
                   current_time
      in \<lparr>time = current_datetime self,
          location = \<lparr>latitude = current_latitude self,
                      longitude = current_longitude self,
                      address = current_address self\<rparr>,
          velocities = vels,
          astropy_time = current_time\<rparr>)"

record displacement_data =
  displacement_vector_km :: vec3
  displacement_magnitude_km :: real
  displacement_magnitude_au :: real
  displacement_magnitude_ly :: real
  time_elapsed_seconds :: real
  time_elapsed_years :: real
  birth_data :: position_data
  current_data :: position_data

definition calculate_displacement :: "SpaceTimePosition \<Rightarrow> displacement_data" where
  "calculate_displacement self =
     (let b_data = calculate_birth_position self;
          c_data = calculate_current_position self;
          birth_velocities = velocities b_data;
          displacement = calculate_position_change birth_velocities (age_seconds self);
          magnitude_km = linalg_norm displacement;
          magnitude_au = magnitude_km / 149597870.7;
          magnitude_ly = magnitude_km / (9.461 * 10 ^ 12)
      in \<lparr>displacement_vector_km = displacement,
          displacement_magnitude_km = magnitude_km,
          displacement_magnitude_au = magnitude_au,
          displacement_magnitude_ly = magnitude_ly,
          time_elapsed_seconds = age_seconds self,
          time_elapsed_years = age_years self,
          birth_data = b_data,
          current_data = c_data\<rparr>)"

text \<open>
  The operation the specification calls \<open>compute_displacement\<close> is the pair of calls the
  request handler of app.py makes: construct the \<open>SpaceTimePosition\<close>, then call its
  \<open>calculate_displacement\<close>.
\<close>

definition compute_displacement ::
  "int \<Rightarrow> datetime \<Rightarrow> location_tuple \<Rightarrow> datetime option \<Rightarrow> location_tuple option
     \<Rightarrow> error + displacement_data" where
  "compute_displacement clock birth_dt birth_location cur_dt cur_location =
     (case SpaceTimePosition_init clock birth_dt birth_location cur_dt cur_location of
        Inl e \<Rightarrow> Inl e
      | Inr position \<Rightarrow> Inr (calculate_displacement position))"

section \<open>Coordinate validation (geocoding.py)\<close>

text \<open>
  \<open>LocationGeocoder.validate_coordinates\<close>; an argument that is \<open>None\<close> in Python is
  \<open>None\<close> here. No function of the repository calls it.
\<close>

definition validate_coordinates :: "real option \<Rightarrow> real option \<Rightarrow> bool" where
  "validate_coordinates lat lon =
     (case (lat, lon) of
        (None, _) \<Rightarrow> False
      | (_, None) \<Rightarrow> False
      | (Some la, Some lo) \<Rightarrow>
          (if \<not> (- 90 \<le> la \<and> la \<le> 90) then False
           else if \<not> (- 180 \<le> lo \<and> lo \<le> 180) then False
           else True))"

section \<open>Spacecraft comparisons (app.py)\<close>

text \<open>
  A catalogue entry is a dictionary with the keys \<open>name\<close>, \<open>speed_kms\<close>,
  \<open>speed_kmh\<close>, \<open>year\<close> and \<open>record\<close>; the last one is the field \<open>record_text\<close>.
  An entry of the result has the same five keys and the three travel times. The speeds
  of the catalogue are non-zero literals, so no division of the loop divides by zero.
\<close>

record craft =
  name :: string
  speed_kms :: real
  speed_kmh :: int
  year :: int
  record_text :: string

record comparison = craft +
  travel_time_seconds :: real
  travel_time_days :: real
  travel_time_years :: real

definition spacecraft :: "craft list" where
  "spacecraft =
     [\<lparr>name = ''Parker Solar Probe'', speed_kms = 163.0, speed_kmh = 586800, year = 2021,
       record_text = ''Fastest human-made object ever''\<rparr>,
      \<lparr>name = ''Juno'', speed_kms = 73.61, speed_kmh = 265000, year = 2016,
       record_text = ''Fastest Jupiter mission''\<rparr>,
      \<lparr>name = ''Helios 2'', speed_kms = 70.22, speed_kmh = 252792, year = 1976,
       record_text = ''Held speed record for 45 years''\<rparr>,
      \<lparr>name = ''Helios 1'', speed_kms = 68.75, speed_kmh = 247500, year = 1975,
       record_text = ''First to exceed 240,000 km/h''\<rparr>,
      \<lparr>name = ''New Horizons'', speed_kms = 58.54, speed_kmh = 210744, year = 2015,
       record_text = ''Fastest Earth departure velocity''\<rparr>]"

definition generate_spacecraft_comparisons :: "real \<Rightarrow> comparison list" where
  "generate_spacecraft_comparisons distance_km =
     map (\<lambda>c.
            let seconds = distance_km / speed_kms c;
                years = seconds / (365.25 * 24 * 3600);
                days = years * 365.25
            in \<lparr>name = name c, speed_kms = speed_kms c, speed_kmh = speed_kmh c,
                year = year c, record_text = record_text c,
                travel_time_seconds = seconds,
                travel_time_days = days,
                travel_time_years = years\<rparr>)
       spacecraft"

section \<open>Spacecraft travel times in the text report (spacetime\_position.py)\<close>

text \<open>
  \<open>generate_report\<close> holds its own copy of the catalogue, in another order, sorts it by
  speed with \<open>reverse=True\<close> (a stable sort, descending), and computes the travel times
  of the first five entries before formatting them. \<open>report_travel_times\<close> is that
  computation, returning the numbers the report prints: name, seconds, minutes, hours,
  days, years.
\<close>

definition report_spacecraft :: "craft list" where
  "report_spacecraft =
     [\<lparr>name = ''Parker Solar Probe'', speed_kms = 163.0, speed_kmh = 586800, year = 2021,
       record_text = ''Fastest human-made object ever''\<rparr>,
      \<lparr>name = ''Helios 2'', speed_kms = 70.22, speed_kmh = 252792, year = 1976,
       record_text = ''Held speed record for 45 years''\<rparr>,
      \<lparr>name = ''Helios 1'', speed_kms = 68.75, speed_kmh = 247500, year = 1975,
       record_text = ''First to exceed 240,000 km/h''\<rparr>,
      \<lparr>name = ''Juno'', speed_kms = 73.61, speed_kmh = 265000, year = 2016,
       record_text = ''Fastest Jupiter mission''\<rparr>,
      \<lparr>name = ''New Horizons'', speed_kms = 58.54, speed_kmh = 210744, year = 2015,
       record_text = ''Fastest Earth departure velocity''\<rparr>]"

definition sort_reverse :: "('a \<Rightarrow> real) \<Rightarrow> 'a list \<Rightarrow> 'a list" where
  "sort_reverse key xs = rev (sort_key key (rev xs))"

definition report_travel_times ::
  "real \<Rightarrow> (string \<times> real \<times> real \<times> real \<times> real \<times> real) list" where
  "report_travel_times distance_km =
     map (\<lambda>c. let seconds = distance_km / speed_kms c;
                  minutes = seconds / 60;
                  hours = minutes / 60;
                  days = hours / 24;
                  years = days / 365.25
              in (name c, seconds, minutes, hours, days, years))
       (take 5 (sort_reverse speed_kms report_spacecraft))"

section \<open>Auxiliary facts\<close>

lemma fold_array_add:
  "fold (\<lambda>v total. array_add total v) (map snd kvs) (a, b, c) =
     (a + sum_list (map (\<lambda>(k, x, y, z). x) kvs),
      b + sum_list (map (\<lambda>(k, x, y, z). y) kvs),
      c + sum_list (map (\<lambda>(k, x, y, z). z) kvs))"
  by (induction kvs arbitrary: a b c) (auto simp: algebra_simps)

lemma total_vec_fold:
  "total_vec (calculate_total_velocity lat lon t) =
     fold (\<lambda>v total. array_add total v)
       (map snd (components (calculate_total_velocity lat lon t))) zeros3"
  by (simp add: calculate_total_velocity_def Let_def)

lemma component_names:
  "map fst (components (calculate_total_velocity lat lon t)) =
     [''earth_rotation'', ''earth_orbit'', ''solar_system_lsr'', ''galactic_rotation'',
      ''galactic_oscillation'', ''local_group'', ''virgo_motion'', ''great_attractor'',
      ''cmb_frame'']"
  by (simp add: calculate_total_velocity_def Let_def)

lemma total_magnitude_norm:
  "total_magnitude (calculate_total_velocity lat lon t) =
     linalg_norm (total_vec (calculate_total_velocity lat lon t))"
  by (simp add: calculate_total_velocity_def Let_def)

lemma array_times_scalar_neg:
  "array_times_scalar v (- e) = array_neg (array_times_scalar v e)"
  by (cases v) simp

lemma array_times_scalar_zero: "array_times_scalar v 0 = (0, 0, 0)"
  by (cases v) simp

lemma array_neg_neg: "array_neg (array_neg v) = v"
  by (cases v) simp

lemma init_aware:
  "SpaceTimePosition_init clock (Aware bw bo) bloc (Some (Aware cw co)) cloc =
     Inr \<lparr>birth_datetime = Aware bw bo,
          birth_latitude = fst bloc,
          birth_longitude = fst (snd bloc),
          birth_address = snd (snd bloc),
          current_datetime = Aware cw co,
          current_latitude = (case cloc of None \<Rightarrow> fst bloc | Some l \<Rightarrow> fst l),
          current_longitude = (case cloc of None \<Rightarrow> fst (snd bloc) | Some l \<Rightarrow> fst (snd l)),
          current_address = (case cloc of None \<Rightarrow> snd (snd bloc) | Some l \<Rightarrow> snd (snd l)),
          age_seconds = real_of_int ((cw - co) - (bw - bo)) / 1000000,
          age_years = real_of_int ((cw - co) - (bw - bo)) / 1000000 / (365.25 * 24 * 3600)\<rparr>"
  by (simp add: SpaceTimePosition_init_def Let_def total_seconds_def algebra_simps)



lemma calculate_displacement_fields:
  "displacement_vector_km (calculate_displacement p) =
     array_times_scalar
       (total_vec (calculate_total_velocity (birth_latitude p) (birth_longitude p)
          (Time (birth_datetime p)))) (age_seconds p)"
  "time_elapsed_seconds (calculate_displacement p) = age_seconds p"
  "time_elapsed_years (calculate_displacement p) = age_years p"
  "velocities (birth_data (calculate_displacement p)) =
     calculate_total_velocity (birth_latitude p) (birth_longitude p) (Time (birth_datetime p))"
  "velocities (current_data (calculate_displacement p)) =
     calculate_total_velocity (current_latitude p) (current_longitude p)
       (Time (current_datetime p))"
  "location (birth_data (calculate_displacement p)) =
     \<lparr>latitude = birth_latitude p, longitude = birth_longitude p, address = birth_address p\<rparr>"
  "location (current_data (calculate_displacement p)) =
     \<lparr>latitude = current_latitude p, longitude = current_longitude p,
      address = current_address p\<rparr>"
  "time (birth_data (calculate_displacement p)) = birth_datetime p"
  "time (current_data (calculate_displacement p)) = current_datetime p"
  by (simp_all add: calculate_displacement_def calculate_birth_position_def
      calculate_current_position_def calculate_position_change_def Let_def)


lemma compute_displacement_aware:
  "\<exists>r. compute_displacement clock (Aware bw bo) bloc (Some (Aware cw co)) cloc = Inr r
     \<and> time_elapsed_seconds r = real_of_int ((cw - co) - (bw - bo)) / 1000000
     \<and> displacement_vector_km r =
         array_times_scalar
           (total_vec (calculate_total_velocity (fst bloc) (fst (snd bloc)) (Time (Aware bw bo))))
           (real_of_int ((cw - co) - (bw - bo)) / 1000000)
     \<and> total_vec (velocities (birth_data r)) =
         total_vec (calculate_total_velocity (fst bloc) (fst (snd bloc)) (Time (Aware bw bo)))"
  by (simp add: compute_displacement_def init_aware calculate_displacement_fields)

lemma sorted_report: "sort_reverse speed_kms report_spacecraft = spacecraft"
  by (simp add: sort_reverse_def report_spacecraft_def spacecraft_def)

section \<open>Claims about the velocity model\<close>

text \<open>
  Claim C1. For every latitude, longitude and instant, the composite returned by
  \<open>calculate_total_velocity\<close> has exactly the nine named component vectors, its total
  is their element-wise sum, and its total magnitude is the Euclidean norm of that total.
\<close>

theorem total_is_sum_of_nine_components:
  "map fst (components (calculate_total_velocity lat lon t)) =
     [''earth_rotation'', ''earth_orbit'', ''solar_system_lsr'', ''galactic_rotation'',
      ''galactic_oscillation'', ''local_group'', ''virgo_motion'', ''great_attractor'',
      ''cmb_frame'']
   \<and> total_vec (calculate_total_velocity lat lon t) =
       (sum_list (map (\<lambda>(k, x, y, z). x) (components (calculate_total_velocity lat lon t))),
        sum_list (map (\<lambda>(k, x, y, z). y) (components (calculate_total_velocity lat lon t))),
        sum_list (map (\<lambda>(k, x, y, z). z) (components (calculate_total_velocity lat lon t))))
   \<and> total_magnitude (calculate_total_velocity lat lon t) =
       (case total_vec (calculate_total_velocity lat lon t) of
          (x, y, z) \<Rightarrow> sqrt (x * x + y * y + z * z))"
proof (intro conjI)
  show "total_vec (calculate_total_velocity lat lon t) =
       (sum_list (map (\<lambda>(k, x, y, z). x) (components (calculate_total_velocity lat lon t))),
        sum_list (map (\<lambda>(k, x, y, z). y) (components (calculate_total_velocity lat lon t))),
        sum_list (map (\<lambda>(k, x, y, z). z) (components (calculate_total_velocity lat lon t))))"
    unfolding total_vec_fold zeros3_def fold_array_add by simp
  show "total_magnitude (calculate_total_velocity lat lon t) =
       (case total_vec (calculate_total_velocity lat lon t) of
          (x, y, z) \<Rightarrow> sqrt (x * x + y * y + z * z))"
    unfolding total_magnitude_norm by (cases "total_vec (calculate_total_velocity lat lon t)") simp
qed (rule component_names)

text \<open>
  Claim C3. The Earth-rotation contribution is
  \<open>(- m * sin(longitude_rad), m * cos(longitude_rad), 0)\<close> with
  \<open>m = 0.465 * cos(latitude_rad)\<close>. The other eight entries of the composite are the same
  for all latitudes, longitudes and instants, while the Earth-rotation entry does change
  with the latitude (equator against pole) and with the longitude (0 against 90 degrees).
\<close>

theorem earth_rotation_only_location_dependent:
  "earth_rotation_velocity lat lon t =
     (- (0.465 * cos (lat * pi / 180)) * sin (lon * pi / 180),
      (0.465 * cos (lat * pi / 180)) * cos (lon * pi / 180),
      0)
   \<and> filter (\<lambda>kv. fst kv \<noteq> ''earth_rotation'') (components (calculate_total_velocity lat lon t))
     = filter (\<lambda>kv. fst kv \<noteq> ''earth_rotation'')
         (components (calculate_total_velocity lat' lon' t'))
   \<and> length (filter (\<lambda>kv. fst kv \<noteq> ''earth_rotation'')
        (components (calculate_total_velocity lat lon t))) = 8
   \<and> map_of (components (calculate_total_velocity lat lon t)) ''earth_rotation'' =
        Some (earth_rotation_velocity lat lon t)
   \<and> earth_rotation_velocity 0 0 t \<noteq> earth_rotation_velocity 90 0 t
   \<and> earth_rotation_velocity 0 0 t \<noteq> earth_rotation_velocity 0 90 t"
proof (intro conjI)
  show "earth_rotation_velocity lat lon t =
     (- (0.465 * cos (lat * pi / 180)) * sin (lon * pi / 180),
      (0.465 * cos (lat * pi / 180)) * cos (lon * pi / 180),
      0)"
    by (simp add: earth_rotation_velocity_def EARTH_ROTATION_EQUATOR_def radians_def Let_def)
  show "filter (\<lambda>kv. fst kv \<noteq> ''earth_rotation'') (components (calculate_total_velocity lat lon t))
     = filter (\<lambda>kv. fst kv \<noteq> ''earth_rotation'')
         (components (calculate_total_velocity lat' lon' t'))"
    by (simp add: calculate_total_velocity_def earth_orbital_velocity_def
        galactic_plane_oscillation_velocity_def Let_def)
  show "length (filter (\<lambda>kv. fst kv \<noteq> ''earth_rotation'')
        (components (calculate_total_velocity lat lon t))) = 8"
    by (simp add: calculate_total_velocity_def Let_def)
  show "map_of (components (calculate_total_velocity lat lon t)) ''earth_rotation'' =
        Some (earth_rotation_velocity lat lon t)"
    by (simp add: calculate_total_velocity_def Let_def)
  show "earth_rotation_velocity 0 0 t \<noteq> earth_rotation_velocity 90 0 t"
    by (simp add: earth_rotation_velocity_def EARTH_ROTATION_EQUATOR_def radians_def Let_def)
  show "earth_rotation_velocity 0 0 t \<noteq> earth_rotation_velocity 0 90 t"
    by (simp add: earth_rotation_velocity_def EARTH_ROTATION_EQUATOR_def radians_def Let_def)
qed

text \<open>
  Claim C4. The eight other contributions are constant vectors built from the fixed
  speeds and directions. Five are
  \<open>speed * (cos(dec) * cos(ra), cos(dec) * sin(ra), sin(dec))\<close>, the angles in degrees
  converted to radians by the factor pi / 180, with (20.0, RA 270, Dec 30),
  (100.0, RA 10.5, Dec 41.27), (600.0, RA 186.75, Dec 12.72), (600.0, RA 220, Dec -45) and
  (369.0, RA 167.99, Dec -6.98). Earth's orbit is (0, 29.78, 0), the Galactic rotation
  (0, 230.0, 0) and the Galactic-plane oscillation (0, 0, 7.0). These eight, after the
  Earth-rotation vector, are the values of the composite in order.
\<close>

theorem fixed_contributions_match_constants:
  "solar_system_velocity =
     (20.0 * (cos (30 * pi / 180) * cos (270 * pi / 180)),
      20.0 * (cos (30 * pi / 180) * sin (270 * pi / 180)),
      20.0 * sin (30 * pi / 180))
   \<and> local_group_velocity =
     (100.0 * (cos (41.27 * pi / 180) * cos (10.5 * pi / 180)),
      100.0 * (cos (41.27 * pi / 180) * sin (10.5 * pi / 180)),
      100.0 * sin (41.27 * pi / 180))
   \<and> virgo_cluster_velocity =
     (600.0 * (cos (12.72 * pi / 180) * cos (186.75 * pi / 180)),
      600.0 * (cos (12.72 * pi / 180) * sin (186.75 * pi / 180)),
      600.0 * sin (12.72 * pi / 180))
   \<and> great_attractor_velocity =
     (600.0 * (cos (- 45 * pi / 180) * cos (220 * pi / 180)),
      600.0 * (cos (- 45 * pi / 180) * sin (220 * pi / 180)),
      600.0 * sin (- 45 * pi / 180))
   \<and> cmb_rest_frame_velocity =
     (369.0 * (cos (- 6.98 * pi / 180) * cos (167.99 * pi / 180)),
      369.0 * (cos (- 6.98 * pi / 180) * sin (167.99 * pi / 180)),
      369.0 * sin (- 6.98 * pi / 180))
   \<and> earth_orbital_velocity t = (0, 29.78, 0)
   \<and> galactic_rotation_velocity = (0, 230.0, 0)
   \<and> galactic_plane_oscillation_velocity t = (0, 0, 7.0)
   \<and> map snd (components (calculate_total_velocity lat lon t)) =
        [earth_rotation_velocity lat lon t, earth_orbital_velocity t, solar_system_velocity,
         galactic_rotation_velocity, galactic_plane_oscillation_velocity t,
         local_group_velocity, virgo_cluster_velocity, great_attractor_velocity,
         cmb_rest_frame_velocity]"
proof (intro conjI)
  show "solar_system_velocity =
     (20.0 * (cos (30 * pi / 180) * cos (270 * pi / 180)),
      20.0 * (cos (30 * pi / 180) * sin (270 * pi / 180)),
      20.0 * sin (30 * pi / 180))"
    by (simp add: solar_system_velocity_def SOLAR_SYSTEM_LSR_def radians_def Let_def)
  show "local_group_velocity =
     (100.0 * (cos (41.27 * pi / 180) * cos (10.5 * pi / 180)),
      100.0 * (cos (41.27 * pi / 180) * sin (10.5 * pi / 180)),
      100.0 * sin (41.27 * pi / 180))"
    by (simp add: local_group_velocity_def MW_LOCAL_GROUP_def radians_def Let_def)
  show "virgo_cluster_velocity =
     (600.0 * (cos (12.72 * pi / 180) * cos (186.75 * pi / 180)),
      600.0 * (cos (12.72 * pi / 180) * sin (186.75 * pi / 180)),
      600.0 * sin (12.72 * pi / 180))"
    by (simp add: virgo_cluster_velocity_def LOCAL_GROUP_VIRGO_def radians_def Let_def)
  show "great_attractor_velocity =
     (600.0 * (cos (- 45 * pi / 180) * cos (220 * pi / 180)),
      600.0 * (cos (- 45 * pi / 180) * sin (220 * pi / 180)),
      600.0 * sin (- 45 * pi / 180))"
    by (simp add: great_attractor_velocity_def GREAT_ATTRACTOR_def radians_def Let_def)
  show "cmb_rest_frame_velocity =
     (369.0 * (cos (- 6.98 * pi / 180) * cos (167.99 * pi / 180)),
      369.0 * (cos (- 6.98 * pi / 180) * sin (167.99 * pi / 180)),
      369.0 * sin (- 6.98 * pi / 180))"
    by (simp add: cmb_rest_frame_velocity_def CMB_DIPOLE_VELOCITY_def CMB_DIPOLE_RA_def
        CMB_DIPOLE_DEC_def radians_def Let_def)
  show "earth_orbital_velocity t = (0, 29.78, 0)"
    by (simp add: earth_orbital_velocity_def EARTH_ORBITAL_VELOCITY_def)
  show "galactic_rotation_velocity = (0, 230.0, 0)"
    by (simp add: galactic_rotation_velocity_def SUN_GALACTIC_ORBIT_def)
  show "galactic_plane_oscillation_velocity t = (0, 0, 7.0)"
    by (simp add: galactic_plane_oscillation_velocity_def GALACTIC_PLANE_OSCILLATION_def)
  show "map snd (components (calculate_total_velocity lat lon t)) =
        [earth_rotation_velocity lat lon t, earth_orbital_velocity t, solar_system_velocity,
         galactic_rotation_velocity, galactic_plane_oscillation_velocity t,
         local_group_velocity, virgo_cluster_velocity, great_attractor_velocity,
         cmb_rest_frame_velocity]"
    by (simp add: calculate_total_velocity_def Let_def)
qed

text \<open>
  Claim C10. The result of \<open>calculate_total_velocity\<close> does not depend on the instant:
  for every latitude and longitude and any two instants, the nine vectors, the total and
  the total magnitude are the same; each of the three generators that take the time
  ignores it.
\<close>

theorem velocities_independent_of_instant:
  "calculate_total_velocity lat lon t1 = calculate_total_velocity lat lon t2
   \<and> earth_rotation_velocity lat lon t1 = earth_rotation_velocity lat lon t2
   \<and> earth_orbital_velocity t1 = earth_orbital_velocity t2
   \<and> galactic_plane_oscillation_velocity t1 = galactic_plane_oscillation_velocity t2"
  by (simp add: calculate_total_velocity_def earth_rotation_velocity_def
      earth_orbital_velocity_def galactic_plane_oscillation_velocity_def)

section \<open>Claims about the displacement\<close>

text \<open>
  Claim C2. For every birth event and current event (timezone-aware instants), the
  displacement is produced, the elapsed seconds are the current instant minus the birth
  instant, and each coordinate of the displacement vector is the same coordinate of the
  total velocity of the birth composite multiplied by the elapsed seconds. The composite
  of the current event is computed from the current location and included in the result,
  and the displacement vector (or the error) is the same whatever the current location
  is.
\<close>

theorem displacement_is_birth_total_times_elapsed:
  "(\<exists>r. compute_displacement clock (Aware bw bo) (blat, blon, baddr)
           (Some (Aware cw co)) (Some (clat, clon, caddr)) = Inr r
      \<and> time_elapsed_seconds r = real_of_int ((cw - co) - (bw - bo)) / 1000000
      \<and> velocities (birth_data r) = calculate_total_velocity blat blon (Time (Aware bw bo))
      \<and> velocities (current_data r) = calculate_total_velocity clat clon (Time (Aware cw co))
      \<and> displacement_vector_km r =
          (case total_vec (velocities (birth_data r)) of
             (x, y, z) \<Rightarrow> (x * time_elapsed_seconds r, y * time_elapsed_seconds r,
                          z * time_elapsed_seconds r)))
   \<and> map_sum id displacement_vector_km (compute_displacement clock b bl c cl) =
       map_sum id displacement_vector_km (compute_displacement clock b bl c cl')"
proof (intro conjI)
  show "\<exists>r. compute_displacement clock (Aware bw bo) (blat, blon, baddr)
           (Some (Aware cw co)) (Some (clat, clon, caddr)) = Inr r
      \<and> time_elapsed_seconds r = real_of_int ((cw - co) - (bw - bo)) / 1000000
      \<and> velocities (birth_data r) = calculate_total_velocity blat blon (Time (Aware bw bo))
      \<and> velocities (current_data r) = calculate_total_velocity clat clon (Time (Aware cw co))
      \<and> displacement_vector_km r =
          (case total_vec (velocities (birth_data r)) of
             (x, y, z) \<Rightarrow> (x * time_elapsed_seconds r, y * time_elapsed_seconds r,
                          z * time_elapsed_seconds r))"
    by (cases "total_vec (calculate_total_velocity blat blon (Time (Aware bw bo)))")
       (simp add: compute_displacement_def init_aware calculate_displacement_fields)
  show "map_sum id displacement_vector_km (compute_displacement clock b bl c cl) =
       map_sum id displacement_vector_km (compute_displacement clock b bl c cl')"
    by (simp add: compute_displacement_def SpaceTimePosition_init_def Let_def
        calculate_displacement_fields split: sum.splits)
qed

text \<open>
  Claim C5, as amended. \<open>compute_displacement\<close> checks no coordinate range: for every
  latitude and longitude of either event, inside or outside [-90, 90] and [-180, 180],
  and timezone-aware instants, it returns a result that reports the coordinates as given
  and the velocity composites computed from them. The range check of the repository is
  the separate function \<open>validate_coordinates\<close>, which answers False exactly when a
  coordinate is missing, the latitude is outside [-90, 90] or the longitude is outside
  [-180, 180].
\<close>

theorem compute_displacement_has_no_range_check:
  "(\<exists>r. compute_displacement clock (Aware bw bo) (blat, blon, baddr)
           (Some (Aware cw co)) (Some (clat, clon, caddr)) = Inr r
        \<and> location (birth_data r) = \<lparr>latitude = blat, longitude = blon, address = baddr\<rparr>
        \<and> location (current_data r) = \<lparr>latitude = clat, longitude = clon, address = caddr\<rparr>
        \<and> velocities (birth_data r) = calculate_total_velocity blat blon (Time (Aware bw bo))
        \<and> velocities (current_data r) = calculate_total_velocity clat clon (Time (Aware cw co)))
   \<and> validate_coordinates (Some lat) (Some lon) =
        (- 90 \<le> lat \<and> lat \<le> 90 \<and> - 180 \<le> lon \<and> lon \<le> 180)
   \<and> validate_coordinates None olon = False
   \<and> validate_coordinates olat None = False"
  by (auto simp add: compute_displacement_def init_aware calculate_displacement_fields
      validate_coordinates_def split: option.splits)

text \<open>
  Claim C5 as stated fails: with a birth latitude of 100 and a birth longitude of 200,
  which \<open>validate_coordinates\<close> rejects, \<open>compute_displacement\<close> raises nothing and
  returns a result.
\<close>

theorem out_of_range_location_yields_result:
  "\<not> validate_coordinates (Some 100) (Some 200)
   \<and> \<not> isl (compute_displacement 0 (Aware 0 0) (100, 200, ''nowhere'')
              (Some (Aware 1000000 0)) None)
   \<and> latitude (location (birth_data (projr (compute_displacement 0 (Aware 0 0)
        (100, 200, ''nowhere'') (Some (Aware 1000000 0)) None)))) = 100"
  by (simp add: validate_coordinates_def compute_displacement_def init_aware
      calculate_displacement_fields)

text \<open>
  Claim C6. If the current instant equals the birth instant, the elapsed seconds are 0
  and the displacement vector is (0, 0, 0), whatever the locations. If the current
  instant precedes the birth instant, the elapsed seconds are negative and the
  displacement vector is the negation of the displacement obtained with the same events
  and the absolute value of the interval: both of the one computed from the birth
  velocities and the absolute interval, and of the result for a current instant that
  follows the birth instant by as much as the given one precedes it.
\<close>

theorem zero_and_negative_interval:
 "(cw - co = bw - bo \<longrightarrow>
    (\<exists>r. compute_displacement clock (Aware bw bo) bloc (Some (Aware cw co)) cloc = Inr r
       \<and> time_elapsed_seconds r = 0 \<and> displacement_vector_km r = (0, 0, 0)))
  \<and> (cw - co < bw - bo \<and> (fw - fo) - (bw - bo) = (bw - bo) - (cw - co) \<longrightarrow>
    (\<exists>r r'. compute_displacement clock (Aware bw bo) bloc (Some (Aware cw co)) cloc = Inr r
       \<and> compute_displacement clock (Aware bw bo) bloc (Some (Aware fw fo)) cloc = Inr r'
       \<and> time_elapsed_seconds r < 0
       \<and> time_elapsed_seconds r' = \<bar>time_elapsed_seconds r\<bar>
       \<and> displacement_vector_km r = array_neg (displacement_vector_km r')
       \<and> displacement_vector_km r =
           array_neg (calculate_position_change (velocities (birth_data r))
                        \<bar>time_elapsed_seconds r\<bar>)))"
proof (intro conjI impI)
  assume "cw - co = bw - bo"
  then show "\<exists>r. compute_displacement clock (Aware bw bo) bloc (Some (Aware cw co)) cloc = Inr r
       \<and> time_elapsed_seconds r = 0 \<and> displacement_vector_km r = (0, 0, 0)"
    by (simp add: compute_displacement_def init_aware calculate_displacement_fields
        array_times_scalar_zero)
next
  assume h: "cw - co < bw - bo \<and> (fw - fo) - (bw - bo) = (bw - bo) - (cw - co)"
  define e where "e = real_of_int ((cw - co) - (bw - bo)) / 1000000"
  define V where "V = total_vec (calculate_total_velocity (fst bloc) (fst (snd bloc))
                                  (Time (Aware bw bo)))"
  have neg: "e < 0" using h by (simp add: e_def)
  have i: "(fw - fo) - (bw - bo) = - ((cw - co) - (bw - bo))"
    using h by linarith
  have flip: "real_of_int ((fw - fo) - (bw - bo)) / 1000000 = - e"
    unfolding e_def i by (simp only: of_int_minus minus_divide_left)
  have abs: "\<bar>e\<bar> = - e" using neg by simp
  obtain r where r: "compute_displacement clock (Aware bw bo) bloc (Some (Aware cw co)) cloc = Inr r"
    and re: "time_elapsed_seconds r = e"
    and rd: "displacement_vector_km r = array_times_scalar V e"
    and rv: "total_vec (velocities (birth_data r)) = V"
    using compute_displacement_aware [of clock bw bo bloc cw co cloc]
    unfolding e_def V_def by auto
  obtain r' where r': "compute_displacement clock (Aware bw bo) bloc (Some (Aware fw fo)) cloc = Inr r'"
    and re': "time_elapsed_seconds r' = - e"
    and rd': "displacement_vector_km r' = array_times_scalar V (- e)"
    using compute_displacement_aware [of clock bw bo bloc fw fo cloc]
    unfolding flip V_def by auto
  have d1: "displacement_vector_km r = array_neg (displacement_vector_km r')"
    by (simp add: rd rd' array_times_scalar_neg array_neg_neg)
  have d2: "displacement_vector_km r =
      array_neg (calculate_position_change (velocities (birth_data r)) \<bar>time_elapsed_seconds r\<bar>)"
    by (simp add: rd re rv abs calculate_position_change_def array_times_scalar_neg array_neg_neg)
  from r r' re re' neg abs d1 d2
  show "\<exists>r r'. compute_displacement clock (Aware bw bo) bloc (Some (Aware cw co)) cloc = Inr r
       \<and> compute_displacement clock (Aware bw bo) bloc (Some (Aware fw fo)) cloc = Inr r'
       \<and> time_elapsed_seconds r < 0
       \<and> time_elapsed_seconds r' = \<bar>time_elapsed_seconds r\<bar>
       \<and> displacement_vector_km r = array_neg (displacement_vector_km r')
       \<and> displacement_vector_km r =
           array_neg (calculate_position_change (velocities (birth_data r))
                        \<bar>time_elapsed_seconds r\<bar>)"
    by auto
qed

text \<open>
  An instance of each half of C6: a birth at 01:00 in a zone one hour ahead of UTC and a
  current instant of 00:00 UTC are the same instant; a current instant one second before
  a birth at the epoch, against one second after it.
\<close>

theorem zero_and_negative_interval_witness:
  "((0::int) - 0 = 3600000000 - 3600000000
      \<and> (\<exists>r. compute_displacement 0 (Aware 3600000000 3600000000) (10, 20, ''home'')
            (Some (Aware 0 0)) None = Inr r
          \<and> time_elapsed_seconds r = 0 \<and> displacement_vector_km r = (0, 0, 0)))
   \<and> (((- 1000000::int) - 0 < 0 - 0 \<and> ((1000000::int) - 0) - (0 - 0) = (0 - 0) - (- 1000000 - 0))
      \<and> (\<exists>r r'. compute_displacement 0 (Aware 0 0) (10, 20, ''home'')
                (Some (Aware (- 1000000) 0)) None = Inr r
          \<and> compute_displacement 0 (Aware 0 0) (10, 20, ''home'')
                (Some (Aware 1000000 0)) None = Inr r'
          \<and> time_elapsed_seconds r < 0
          \<and> time_elapsed_seconds r' = \<bar>time_elapsed_seconds r\<bar>
          \<and> displacement_vector_km r = array_neg (displacement_vector_km r')
          \<and> displacement_vector_km r =
               array_neg (calculate_position_change (velocities (birth_data r))
                            \<bar>time_elapsed_seconds r\<bar>)))"
proof -
  have eq: "(0::int) - 0 = 3600000000 - 3600000000" by simp
  have lt: "(- 1000000::int) - 0 < 0 - 0
      \<and> ((1000000::int) - 0) - (0 - 0) = (0 - 0) - (- 1000000 - 0)"
    by simp
  from zero_and_negative_interval
         [of 0 0 3600000000 3600000000 0 "(10, 20, ''home'')" None]
  have a: "\<exists>r. compute_displacement 0 (Aware 3600000000 3600000000) (10, 20, ''home'')
          (Some (Aware 0 0)) None = Inr r
      \<and> time_elapsed_seconds r = 0 \<and> displacement_vector_km r = (0, 0, 0)"
    using eq by blast
  from zero_and_negative_interval
         [of "- 1000000" 0 0 0 0 "(10, 20, ''home'')" None 1000000 0]
  have b: "\<exists>r r'. compute_displacement 0 (Aware 0 0) (10, 20, ''home'')
                (Some (Aware (- 1000000) 0)) None = Inr r
      \<and> compute_displacement 0 (Aware 0 0) (10, 20, ''home'')
                (Some (Aware 1000000 0)) None = Inr r'
      \<and> time_elapsed_seconds r < 0
      \<and> time_elapsed_seconds r' = \<bar>time_elapsed_seconds r\<bar>
      \<and> displacement_vector_km r = array_neg (displacement_vector_km r')
      \<and> displacement_vector_km r =
           array_neg (calculate_position_change (velocities (birth_data r))
                        \<bar>time_elapsed_seconds r\<bar>)"
    using lt by blast
  from eq lt a b show ?thesis by blast
qed

text \<open>
  Claim C7. In every result of \<open>calculate_displacement\<close>, the magnitude in kilometres is
  the norm of the displacement vector, the magnitude in astronomical units is the
  kilometres divided by 149597870.7, the magnitude in light-years is the kilometres
  divided by 9.461e12, and multiplying either back by its constant gives the kilometres
  again.
\<close>

theorem unit_conversions_round_trip:
  "displacement_magnitude_km (calculate_displacement p) =
       linalg_norm (displacement_vector_km (calculate_displacement p))
   \<and> displacement_magnitude_au (calculate_displacement p) =
       displacement_magnitude_km (calculate_displacement p) / 149597870.7
   \<and> displacement_magnitude_ly (calculate_displacement p) =
       displacement_magnitude_km (calculate_displacement p) / (9.461 * 10 ^ 12)
   \<and> displacement_magnitude_au (calculate_displacement p) * 149597870.7 =
       displacement_magnitude_km (calculate_displacement p)
   \<and> displacement_magnitude_ly (calculate_displacement p) * (9.461 * 10 ^ 12) =
       displacement_magnitude_km (calculate_displacement p)"
  by (simp add: calculate_displacement_def Let_def)



section \<open>Claims about the spacecraft comparison\<close>

text \<open>
  Claim C9. For every distance D in kilometres, \<open>generate_spacecraft_comparisons\<close>
  returns one entry for each of the five spacecraft of the catalogue, in catalogue order,
  whose travel time in seconds is D divided by the cruise speed and whose travel time in
  years is those seconds divided by 365.25 * 24 * 3600. The travel times the text report
  computes for the same distance have the same seconds and years.
\<close>

theorem spacecraft_travel_times:
  "map (\<lambda>c. (name c, speed_kms c, travel_time_seconds c, travel_time_years c))
       (generate_spacecraft_comparisons D) =
     [(''Parker Solar Probe'', 163.0, D / 163.0, D / 163.0 / (365.25 * 24 * 3600)),
      (''Juno'', 73.61, D / 73.61, D / 73.61 / (365.25 * 24 * 3600)),
      (''Helios 2'', 70.22, D / 70.22, D / 70.22 / (365.25 * 24 * 3600)),
      (''Helios 1'', 68.75, D / 68.75, D / 68.75 / (365.25 * 24 * 3600)),
      (''New Horizons'', 58.54, D / 58.54, D / 58.54 / (365.25 * 24 * 3600))]
   \<and> map (\<lambda>c. (name c, speed_kms c)) spacecraft =
       map (\<lambda>c. (name c, speed_kms c)) (generate_spacecraft_comparisons D)
   \<and> map (\<lambda>(n, s, m, h, d, y). (n, s, y)) (report_travel_times D) =
       map (\<lambda>c. (name c, travel_time_seconds c, travel_time_years c))
         (generate_spacecraft_comparisons D)"
  by (simp add: report_travel_times_def sorted_report generate_spacecraft_comparisons_def
      spacecraft_def Let_def)

end
